theory Spec2Isabelle
  imports Complex_Main "HOL-Library.AList" "HOL-Library.Multiset"
begin

section \<open>Conventions of the embedding\<close>

text \<open>
  The Python package \<^verbatim>\<open>insider_detection\<close> is embedded function by function.
  \<^item> A Python \<^verbatim>\<open>float\<close> is modelled as a \<^typ>\<open>real\<close>: rounding, infinities and
    not-a-number are outside the model, so every arithmetic statement below is about the
    exact value of the expression the source evaluates.
  \<^item> A Python \<^verbatim>\<open>dict\<close> keeps its keys in insertion order and the source iterates over
    several of them, so a dict is an association list with distinct keys: a lookup is
    \<^const>\<open>map_of\<close>, an assignment \<^verbatim>\<open>d[k] = v\<close> is \<^const>\<open>AList.update\<close>
    (which overwrites in place or appends a fresh key at the end).
  \<^item> A \<^verbatim>\<open>datetime\<close> is the number of seconds since a fixed epoch.
  \<^item> An exception is a value of \<open>py_error\<close>; a function that can raise returns
    \<open>py_error + 'a\<close>, and one that also mutates an object returns the object with it.
\<close>

datatype py_error = ValueError string | KeyError string | StatisticsError

type_synonym 'v dict = "(string \<times> 'v) list"

text \<open>\<^verbatim>\<open>d.get(k, default)\<close>\<close>

definition dict_get :: "'v dict \<Rightarrow> string \<Rightarrow> 'v \<Rightarrow> 'v" where
  "dict_get d k dflt = (case map_of d k of None \<Rightarrow> dflt | Some v \<Rightarrow> v)"

text \<open>\<^verbatim>\<open>statistics.mean\<close>, which raises on an empty sequence.\<close>

definition mean :: "real list \<Rightarrow> py_error + real" where
  "mean xs = (if xs = [] then Inl StatisticsError else Inr (sum_list xs / real (length xs)))"

section \<open>Data model\<close>

text \<open>\<^verbatim>\<open>data_ingestion.TradeEvent\<close>\<close>

record TradeEvent =
  trade_id :: string
  account_id :: string
  market_id :: string
  timestamp :: real
  outcome :: string
  size' :: real
  price :: real

text \<open>\<^verbatim>\<open>feature_store.FeatureVector\<close>\<close>

record FeatureVector =
  entity_id :: string
  features :: "real dict"
  as_of :: real

text \<open>\<^verbatim>\<open>model_zoo.PredictiveModel\<close> (a protocol: a name and a scoring function),
  \<^verbatim>\<open>ModelPrediction\<close> and \<^verbatim>\<open>ModelWrapper\<close>\<close>

record PredictiveModel =
  name :: string
  predict_proba :: "real dict \<Rightarrow> real"

record ModelPrediction =
  model_name :: string
  entity_id :: string
  score :: real
  metadata :: "real dict"

record ModelWrapper =
  name :: string
  model :: PredictiveModel
  postprocess :: "(real \<Rightarrow> real) option"

text \<open>\<^verbatim>\<open>ensemble.EnsembleScore\<close>\<close>

record EnsembleScore =
  entity_id :: string
  score :: real
  breakdown :: "real dict"

text \<open>\<^verbatim>\<open>interfaces.alerts.Alert\<close>\<close>

record Alert =
  entity_id :: string
  score :: real
  severity :: string
  message :: string

section \<open>Alert classifier (\<^verbatim>\<open>interfaces/alerts.py\<close>)\<close>

record AlertDispatcher =
  critical_threshold :: real
  high_threshold :: real
  sent_alerts :: "Alert list"

text \<open>\<^verbatim>\<open>AlertDispatcher.__init__\<close> with its default arguments.\<close>

definition AlertDispatcher_init :: "real \<Rightarrow> real \<Rightarrow> AlertDispatcher" where
  "AlertDispatcher_init critical high =
     \<lparr>critical_threshold = critical, high_threshold = high, sent_alerts = []\<rparr>"

definition AlertDispatcher_default :: AlertDispatcher where
  "AlertDispatcher_default = AlertDispatcher_init 0.9 0.7"

text \<open>\<^verbatim>\<open>AlertDispatcher._determine_severity\<close>\<close>

definition determine_severity :: "AlertDispatcher \<Rightarrow> real \<Rightarrow> string" where
  "determine_severity d s =
     (if s \<ge> critical_threshold d then ''critical''
      else if s \<ge> high_threshold d then ''high''
      else if s \<ge> 0.5 then ''medium''
      else ''info'')"

text \<open>
  \<^verbatim>\<open>AlertDispatcher.create_alerts\<close>. The message is an f-string that prints the score
  with \<^verbatim>\<open>:.2f\<close>; the decimal printer of floats is the parameter \<open>fmt\<close>.
\<close>

fun create_alerts ::
  "(real \<Rightarrow> string) \<Rightarrow> AlertDispatcher \<Rightarrow> EnsembleScore list \<Rightarrow> Alert list" where
  "create_alerts fmt d [] = []"
| "create_alerts fmt d (sc # rest) =
     (let sev = determine_severity d (EnsembleScore.score sc) in
      if sev = ''info'' then create_alerts fmt d rest
      else
        \<lparr>Alert.entity_id = EnsembleScore.entity_id sc,
         Alert.score = EnsembleScore.score sc,
         severity = sev,
         message = ''Account '' @ EnsembleScore.entity_id sc @ '' flagged with severity ''
                   @ sev @ '' (score='' @ fmt (EnsembleScore.score sc) @ '').''\<rparr>
        # create_alerts fmt d rest)"

text \<open>\<^verbatim>\<open>AlertDispatcher.dispatch\<close>\<close>

definition dispatch :: "AlertDispatcher \<Rightarrow> Alert list \<Rightarrow> AlertDispatcher" where
  "dispatch d alerts = d\<lparr>sent_alerts := sent_alerts d @ alerts\<rparr>"

section \<open>Model registry (\<^verbatim>\<open>model_zoo.py\<close>)\<close>

text \<open>\<^verbatim>\<open>ModelWrapper.predict\<close>\<close>

definition predict :: "ModelWrapper \<Rightarrow> FeatureVector \<Rightarrow> ModelPrediction" where
  "predict w feature_vector =
     (let raw_score = predict_proba (model w) (features feature_vector);
          sc = (case postprocess w of Some f \<Rightarrow> f raw_score | None \<Rightarrow> raw_score)
      in \<lparr>model_name = ModelWrapper.name w,
          ModelPrediction.entity_id = FeatureVector.entity_id feature_vector,
          ModelPrediction.score = sc,
          metadata = [(''raw_score'', raw_score)]\<rparr>)"

text \<open>The registry \<^verbatim>\<open>ModelZoo._models\<close>: a dict from names to wrappers.\<close>

type_synonym ModelZoo = "ModelWrapper dict"

text \<open>
  \<^verbatim>\<open>ModelZoo.register\<close> mutates the registry and may raise: the model returns the
  registry as the call leaves it together with the outcome.
\<close>

definition register :: "ModelWrapper \<Rightarrow> ModelZoo \<Rightarrow> ModelZoo \<times> (py_error + unit)" where
  "register wrapper models =
     (if ModelWrapper.name wrapper \<in> set (map fst models)
      then (models, Inl (ValueError (''Model '' @ ModelWrapper.name wrapper @ '' already registered'')))
      else (AList.update (ModelWrapper.name wrapper) wrapper models, Inr ()))"

text \<open>\<^verbatim>\<open>ModelZoo.__init__\<close>: registers each given wrapper, stopping at the first error.\<close>

fun register_all :: "ModelWrapper list \<Rightarrow> ModelZoo \<Rightarrow> ModelZoo \<times> (py_error + unit)" where
  "register_all [] models = (models, Inr ())"
| "register_all (w # ws) models =
     (case register w models of
        (models', Inl e) \<Rightarrow> (models', Inl e)
      | (models', Inr _) \<Rightarrow> register_all ws models')"

definition ModelZoo_init :: "ModelWrapper list \<Rightarrow> ModelZoo \<times> (py_error + unit)" where
  "ModelZoo_init ws = register_all ws []"

text \<open>\<^verbatim>\<open>ModelZoo.iter_models\<close> and \<^verbatim>\<open>ModelZoo.get\<close>\<close>

definition iter_models :: "ModelZoo \<Rightarrow> ModelWrapper list" where
  "iter_models models = map snd models"

definition get :: "ModelZoo \<Rightarrow> string \<Rightarrow> py_error + ModelWrapper" where
  "get models nm = (case map_of models nm of None \<Rightarrow> Inl (KeyError nm) | Some w \<Rightarrow> Inr w)"

section \<open>Ensemble combiner (\<^verbatim>\<open>ensemble.py\<close>)\<close>

record EnsembleCombiner =
  weights :: "real dict"

text \<open>\<^verbatim>\<open>EnsembleCombiner.__init__\<close>: \<^verbatim>\<open>dict(weights or {})\<close>\<close>

definition EnsembleCombiner_init :: "real dict option \<Rightarrow> EnsembleCombiner" where
  "EnsembleCombiner_init w = \<lparr>weights = (case w of None \<Rightarrow> [] | Some d \<Rightarrow> d)\<rparr>"

text \<open>The accumulation loop of \<^verbatim>\<open>_weighted_average\<close>; the state is
  \<open>(total_weight, weighted_sum)\<close>.\<close>

fun weighted_loop :: "real dict \<Rightarrow> real dict \<Rightarrow> real \<times> real \<Rightarrow> real \<times> real" where
  "weighted_loop w [] acc = acc"
| "weighted_loop w ((nm, sc) # rest) (total_weight, weighted_sum) =
     (let weight = dict_get w nm 0
      in weighted_loop w rest (total_weight + weight, weighted_sum + weight * sc))"

text \<open>\<^verbatim>\<open>EnsembleCombiner._weighted_average\<close>\<close>

definition weighted_average :: "EnsembleCombiner \<Rightarrow> real dict \<Rightarrow> py_error + real" where
  "weighted_average c model_scores =
     (if model_scores = [] then Inr 0
      else if weights c = [] then mean (map snd model_scores)
      else
        (case weighted_loop (weights c) model_scores (0, 0) of
           (total_weight, weighted_sum) \<Rightarrow>
             if total_weight \<noteq> 0 then Inr (weighted_sum / total_weight)
             else mean (map snd model_scores)))"

text \<open>The grouping loop of \<^verbatim>\<open>combine\<close>:
  \<^verbatim>\<open>grouped[prediction.entity_id][prediction.model_name] = prediction.score\<close> on a
  \<^verbatim>\<open>defaultdict(dict)\<close>.\<close>

definition group_step :: "ModelPrediction \<Rightarrow> real dict dict \<Rightarrow> real dict dict" where
  "group_step prediction grouped =
     (let inner = dict_get grouped (ModelPrediction.entity_id prediction) []
      in AList.update (ModelPrediction.entity_id prediction)
           (AList.update (model_name prediction) (ModelPrediction.score prediction) inner)
           grouped)"

definition group_predictions :: "ModelPrediction list \<Rightarrow> real dict dict" where
  "group_predictions predictions = fold group_step predictions []"

text \<open>The result loop of \<^verbatim>\<open>combine\<close>, in the order of the groups.\<close>

fun combine_groups :: "EnsembleCombiner \<Rightarrow> real dict dict \<Rightarrow> py_error + EnsembleScore list" where
  "combine_groups c [] = Inr []"
| "combine_groups c ((eid, model_scores) # rest) =
     (case weighted_average c model_scores of
        Inl e \<Rightarrow> Inl e
      | Inr combined_score \<Rightarrow>
          (case combine_groups c rest of
             Inl e \<Rightarrow> Inl e
           | Inr results \<Rightarrow>
               Inr (\<lparr>EnsembleScore.entity_id = eid, EnsembleScore.score = combined_score,
                     breakdown = model_scores\<rparr> # results)))"

text \<open>\<^verbatim>\<open>EnsembleCombiner.combine\<close>\<close>

definition combine :: "EnsembleCombiner \<Rightarrow> ModelPrediction list \<Rightarrow> py_error + EnsembleScore list" where
  "combine c predictions = combine_groups c (group_predictions predictions)"

section \<open>Feature engine (\<^verbatim>\<open>feature_store.py\<close>)\<close>

text \<open>\<^verbatim>\<open>FeatureStore.storage\<close>: a \<^verbatim>\<open>defaultdict(list)\<close> from accounts to their vectors.\<close>

type_synonym FeatureStore = "FeatureVector list dict"

text \<open>\<^verbatim>\<open>FeatureStore._rolling_average\<close>\<close>

definition rolling_average :: "FeatureStore \<Rightarrow> string \<Rightarrow> real \<Rightarrow> real" where
  "rolling_average storage acct new_value =
     (let history = dict_get storage acct []
      in if history = [] then new_value
         else (let lst = dict_get (features (last history)) ''avg_trade_size'' new_value
               in 0.5 * lst + 0.5 * new_value))"

text \<open>\<^verbatim>\<open>str.lower\<close> on ASCII letters.\<close>

definition lower_char :: "char \<Rightarrow> char" where
  "lower_char ch =
     (let n = (of_char ch :: nat) in if 65 \<le> n \<and> n \<le> 90 then char_of (n + 32) else ch)"

definition lower :: "string \<Rightarrow> string" where
  "lower s = map lower_char s"

text \<open>\<^verbatim>\<open>FeatureStore._profit_proxy\<close>\<close>

definition profit_proxy :: "TradeEvent \<Rightarrow> real" where
  "profit_proxy trade =
     (let direction = (if lower (outcome trade) \<in> {''yes'', ''win''} then 1 else - 1)
      in direction * (1 - price trade))"

text \<open>\<^verbatim>\<open>FeatureStore._time_to_resolution_proxy\<close>: the seconds since the midnight before
  the timestamp, at least 1.\<close>

definition time_to_resolution_proxy :: "TradeEvent \<Rightarrow> real" where
  "time_to_resolution_proxy trade =
     (let midnight = 86400 * of_int \<lfloor>timestamp trade / 86400\<rfloor>;
          delta = timestamp trade - midnight
      in max delta 1)"

text \<open>\<^verbatim>\<open>FeatureStore.compute_features\<close>: returns the store as the call leaves it and
  the computed vectors.\<close>

fun compute_features :: "FeatureStore \<Rightarrow> TradeEvent list \<Rightarrow> FeatureStore \<times> FeatureVector list" where
  "compute_features storage [] = (storage, [])"
| "compute_features storage (trade # rest) =
     (let feats = [(''avg_trade_size'', rolling_average storage (account_id trade) (size' trade)),
                   (''profit_proxy'', profit_proxy trade),
                   (''time_to_resolution_est'', time_to_resolution_proxy trade)];
          vector = \<lparr>FeatureVector.entity_id = account_id trade, features = feats,
                    as_of = timestamp trade\<rparr>;
          storage' = AList.update (account_id trade)
                       (dict_get storage (account_id trade) [] @ [vector]) storage
      in (case compute_features storage' rest of
            (storage'', computed) \<Rightarrow> (storage'', vector # computed)))"


section \<open>Pipeline orchestrator (\<^verbatim>\<open>pipeline.py\<close>)\<close>

text \<open>\<^verbatim>\<open>InsiderDetectionPipeline._generate_predictions\<close>: for each vector, for each
  registered model, one prediction.\<close>

definition generate_predictions :: "ModelZoo \<Rightarrow> FeatureVector list \<Rightarrow> ModelPrediction list" where
  "generate_predictions model_zoo feature_vectors =
     concat (map (\<lambda>fv. map (\<lambda>m. predict m fv) (iter_models model_zoo)) feature_vectors)"

section \<open>Specification-side definitions and sample inputs\<close>

text \<open>The combined score as the specification words it: the unweighted mean without
  configured weights, else the weighted sum over the sum of the applicable weights (a model
  without a configured weight has weight 0), else the unweighted mean when that sum is 0.\<close>

definition spec_weighted_score :: "real dict \<Rightarrow> real dict \<Rightarrow> real" where
  "spec_weighted_score w ms =
     (let unweighted = sum_list (map snd ms) / real (length ms);
          total = (\<Sum>(nm, sc) \<leftarrow> ms. dict_get w nm 0);
          wsum = (\<Sum>(nm, sc) \<leftarrow> ms. dict_get w nm 0 * sc)
      in if w = [] then unweighted
         else if total = 0 then unweighted
         else wsum / total)"

text \<open>The result \<^verbatim>\<open>combine\<close> builds for one group.\<close>

definition score_of_group :: "EnsembleCombiner \<Rightarrow> string \<times> real dict \<Rightarrow> EnsembleScore" where
  "score_of_group c g =
     \<lparr>EnsembleScore.entity_id = fst g,
      EnsembleScore.score = (if snd g = [] then 0 else spec_weighted_score (weights c) (snd g)),
      breakdown = snd g\<rparr>"

text \<open>Sample inputs: a prediction without metadata, a wrapper around a constant model.\<close>

definition pred :: "string \<Rightarrow> string \<Rightarrow> real \<Rightarrow> ModelPrediction" where
  "pred m e s = \<lparr>model_name = m, ModelPrediction.entity_id = e, ModelPrediction.score = s, metadata = []\<rparr>"

definition wrapper0 :: "string \<Rightarrow> real \<Rightarrow> ModelWrapper" where
  "wrapper0 nm v = \<lparr>ModelWrapper.name = nm,
      model = \<lparr>PredictiveModel.name = nm, predict_proba = (\<lambda>_. v)\<rparr>, postprocess = None\<rparr>"





text \<open>Sample input: a trade at price 0.5.\<close>

definition trade :: "string \<Rightarrow> string \<Rightarrow> string \<Rightarrow> real \<Rightarrow> string \<Rightarrow> real \<Rightarrow> TradeEvent" where
  "trade tid acct mkt ts oc sz =
     \<lparr>trade_id = tid, account_id = acct, market_id = mkt, timestamp = ts, outcome = oc,
      size' = sz, price = 0.5\<rparr>"


text \<open>The score a grouping holds for an entity and a model, if any.\<close>

definition lookup2 :: "real dict dict \<Rightarrow> string \<Rightarrow> string \<Rightarrow> real option" where
  "lookup2 grouped e m = (case map_of grouped e of None \<Rightarrow> None | Some bd \<Rightarrow> map_of bd m)"

text \<open>The last prediction of a list for an entity and a model, if any.\<close>

definition last_prediction :: "ModelPrediction list \<Rightarrow> string \<Rightarrow> string \<Rightarrow> ModelPrediction option" where
  "last_prediction ps e m =
     find (\<lambda>p. ModelPrediction.entity_id p = e \<and> model_name p = m) (rev ps)"


text \<open>Sample input: a model that returns the \<^verbatim>\<open>avg_trade_size\<close> feature.\<close>

definition avg_model :: ModelWrapper where
  "avg_model = \<lparr>ModelWrapper.name = ''avg'',
      model = \<lparr>PredictiveModel.name = ''avg'',
                predict_proba = (\<lambda>fs. dict_get fs ''avg_trade_size'' 0)\<rparr>,
      postprocess = None\<rparr>"

text \<open>The elements of a list in the order of their first occurrence: the order of the
  keys of a \<^verbatim>\<open>dict\<close> filled in that order.\<close>

definition first_occurrences :: "'a list \<Rightarrow> 'a list" where
  "first_occurrences xs = rev (remdups (rev xs))"

section \<open>Facts about the alert classifier\<close>

lemma create_alerts_severity:
  "a \<in> set (create_alerts fmt d scores) \<Longrightarrow> severity a \<noteq> ''info''"
  by (induction scores) (auto simp: Let_def split: if_splits)

text \<open>
  Claim C4. With the default thresholds a combined score is critical iff it is at least
  0.9, else high iff at least 0.7, else medium iff at least 0.5, else info; the six
  boundary scores 0.9, 0.89999, 0.7, 0.69999, 0.5, 0.49999 are classified critical, high,
  high, medium, medium, info; and no alert returned by \<open>create_alerts\<close>, for any list of
  ensemble scores, has severity info.
\<close>

theorem C4_severity_tiers:
  "determine_severity AlertDispatcher_default s =
     (if s \<ge> 0.9 then ''critical'' else if s \<ge> 0.7 then ''high''
      else if s \<ge> 0.5 then ''medium'' else ''info'')
   \<and> map (determine_severity AlertDispatcher_default)
        [0.9, 0.89999, 0.7, 0.69999, 0.5, 0.49999]
      = [''critical'', ''high'', ''high'', ''medium'', ''medium'', ''info'']
   \<and> (\<forall>a \<in> set (create_alerts fmt AlertDispatcher_default scores).
         severity a \<noteq> ''info'' \<and> severity a \<in> {''critical'', ''high'', ''medium''})"
proof (intro conjI ballI)
  show "determine_severity AlertDispatcher_default s =
     (if s \<ge> 0.9 then ''critical'' else if s \<ge> 0.7 then ''high''
      else if s \<ge> 0.5 then ''medium'' else ''info'')"
    by (simp add: determine_severity_def AlertDispatcher_default_def AlertDispatcher_init_def)
  show "map (determine_severity AlertDispatcher_default)
        [0.9, 0.89999, 0.7, 0.69999, 0.5, 0.49999]
      = [''critical'', ''high'', ''high'', ''medium'', ''medium'', ''info'']"
    by (simp add: determine_severity_def AlertDispatcher_default_def AlertDispatcher_init_def)
next
  fix a assume a: "a \<in> set (create_alerts fmt AlertDispatcher_default scores)"
  then show "severity a \<noteq> ''info''" by (rule create_alerts_severity)
  from a show "severity a \<in> {''critical'', ''high'', ''medium''}"
    by (induction scores)
       (auto simp: Let_def determine_severity_def split: if_splits)
qed

theorem C4_witness:
  "map severity (create_alerts (\<lambda>_. []) AlertDispatcher_default
      [score_of_group (EnsembleCombiner_init None) (''x'', [(''A'', 0.95)]),
       score_of_group (EnsembleCombiner_init None) (''y'', [(''A'', 0.3)])]) = [''critical'']"
  using C4_severity_tiers [of "0.95" "\<lambda>_. []"
      "[score_of_group (EnsembleCombiner_init None) (''x'', [(''A'', 0.95)]),
        score_of_group (EnsembleCombiner_init None) (''y'', [(''A'', 0.3)])]"]
  by (simp add: score_of_group_def spec_weighted_score_def EnsembleCombiner_init_def
      determine_severity_def AlertDispatcher_default_def AlertDispatcher_init_def)

section \<open>Facts about the model registry\<close>

text \<open>
  Claim C7. \<open>register\<close> raises exactly when the wrapper's name is already a key of the
  registry; the error comes from the call to \<open>register\<close> itself; on the error the registry
  is left as it was (the old wrapper stays, nothing is added); with a fresh name the call
  succeeds and \<open>get\<close> returns the wrapper under its name, the other names being untouched.
\<close>

theorem C7_register:
  "((\<exists>e. snd (register w z) = Inl e) \<longleftrightarrow> ModelWrapper.name w \<in> fst ` set z)
   \<and> (ModelWrapper.name w \<in> fst ` set z \<longrightarrow>
        fst (register w z) = z \<and> (\<forall>nm. get (fst (register w z)) nm = get z nm))
   \<and> (ModelWrapper.name w \<notin> fst ` set z \<longrightarrow>
        snd (register w z) = Inr ()
        \<and> get (fst (register w z)) (ModelWrapper.name w) = Inr w
        \<and> (\<forall>nm. nm \<noteq> ModelWrapper.name w \<longrightarrow> get (fst (register w z)) nm = get z nm))"
  by (auto simp: register_def get_def AList.update_conv')

theorem C7_witness:
  "snd (register (wrapper0 ''m'' 1) []) = Inr ()
   \<and> get (fst (register (wrapper0 ''m'' 1) [])) ''m'' = Inr (wrapper0 ''m'' 1)
   \<and> (\<exists>e. snd (register (wrapper0 ''m'' 2) [(''m'', wrapper0 ''m'' 1)]) = Inl e)
   \<and> fst (register (wrapper0 ''m'' 2) [(''m'', wrapper0 ''m'' 1)]) = [(''m'', wrapper0 ''m'' 1)]
   \<and> get (fst (register (wrapper0 ''m'' 2) [(''m'', wrapper0 ''m'' 1)])) ''m'' = Inr (wrapper0 ''m'' 1)"
  using C7_register [of "wrapper0 ''m'' 1" "[]"]
        C7_register [of "wrapper0 ''m'' 2" "[(''m'', wrapper0 ''m'' 1)]"]
  by (simp add: wrapper0_def get_def)

section \<open>Facts about the ensemble combiner\<close>

lemma weighted_loop_sums:
  "weighted_loop w ms (t, s) =
     (t + (\<Sum>(nm, sc) \<leftarrow> ms. dict_get w nm 0), s + (\<Sum>(nm, sc) \<leftarrow> ms. dict_get w nm 0 * sc))"
  by (induction ms arbitrary: t s) (auto simp: Let_def)

lemma weighted_average_value:
  "weighted_average c ms = Inr (if ms = [] then 0 else spec_weighted_score (weights c) ms)"
  by (simp add: weighted_average_def weighted_loop_sums mean_def spec_weighted_score_def Let_def)

lemma combine_groups_map: "combine_groups c g = Inr (map (score_of_group c) g)"
  by (induction g) (auto simp: weighted_average_value score_of_group_def)

lemma upd_in: "x \<in> set (AList.update k v al) \<Longrightarrow> x = (k, v) \<or> x \<in> set al"
  by (induction al) (auto split: if_splits)

lemma group_step_nonempty:
  "\<forall>g \<in> set grouped. snd g \<noteq> [] \<Longrightarrow> \<forall>g \<in> set (group_step p grouped). snd g \<noteq> []"
  using upd_in by (fastforce simp: group_step_def Let_def)

lemma group_predictions_nonempty_aux:
  "\<forall>g \<in> set grouped. snd g \<noteq> [] \<Longrightarrow> \<forall>g \<in> set (fold group_step ps grouped). snd g \<noteq> []"
proof (induction ps arbitrary: grouped)
  case Nil then show ?case by simp
next
  case (Cons p ps)
  show ?case using Cons.IH[OF group_step_nonempty[OF Cons.prems]] by simp
qed

section \<open>Facts about the feature engine\<close>



lemma compute_features_length: "length (snd (compute_features storage ts)) = length ts"
proof (induction ts arbitrary: storage)
  case Nil
  then show ?case by simp
next
  case (Cons t rest)
  show ?case
    using Cons.IH by (simp add: Let_def split: prod.splits) (metis snd_conv)
qed











section \<open>Facts about grouping predictions\<close>

lemma lookup2_group_step:
  "lookup2 (group_step p g) e m =
     (if e = ModelPrediction.entity_id p \<and> m = model_name p then Some (ModelPrediction.score p)
      else lookup2 g e m)"
  by (auto simp: lookup2_def group_step_def Let_def AList.update_conv' dict_get_def
      split: option.splits)

lemma find_snoc:
  "find P (xs @ [x]) = (case find P xs of Some y \<Rightarrow> Some y | None \<Rightarrow> if P x then Some x else None)"
  by (induction xs) auto

lemma lookup2_fold:
  "lookup2 (fold group_step ps g) e m =
     (case last_prediction ps e m of Some p \<Rightarrow> Some (ModelPrediction.score p) | None \<Rightarrow> lookup2 g e m)"
proof (induction ps arbitrary: g)
  case Nil
  then show ?case by (simp add: last_prediction_def)
next
  case (Cons p ps)
  show ?case
    by (simp add: Cons.IH lookup2_group_step last_prediction_def find_snoc split: option.splits)
qed

lemma keys_group_step:
  "fst ` set (group_step p g) = insert (ModelPrediction.entity_id p) (fst ` set g)"
  by (simp add: group_step_def Let_def AList.dom_update)

lemma keys_fold:
  "fst ` set (fold group_step ps g) = ModelPrediction.entity_id ` set ps \<union> fst ` set g"
  by (induction ps arbitrary: g) (auto simp: keys_group_step)

lemma distinct_group_step:
  "distinct (map fst g) \<Longrightarrow> distinct (map fst (group_step p g))"
  by (simp add: group_step_def Let_def AList.distinct_update)

lemma distinct_fold: "distinct (map fst g) \<Longrightarrow> distinct (map fst (fold group_step ps g))"
  by (induction ps arbitrary: g) (auto simp: distinct_group_step)

lemma inner_distinct_group_step:
  assumes "\<forall>x \<in> set g. distinct (map fst (snd x))"
  shows "\<forall>x \<in> set (group_step p g). distinct (map fst (snd x))"
proof
  fix x assume "x \<in> set (group_step p g)"
  then consider "x \<in> set g"
    | "x = (ModelPrediction.entity_id p,
            AList.update (model_name p) (ModelPrediction.score p)
              (dict_get g (ModelPrediction.entity_id p) []))"
    unfolding group_step_def Let_def using upd_in by fastforce
  then show "distinct (map fst (snd x))"
  proof cases
    case 1
    with assms show ?thesis by blast
  next
    case 2
    have "distinct (map fst (dict_get g (ModelPrediction.entity_id p) []))"
      using assms by (auto simp: dict_get_def split: option.splits dest!: map_of_SomeD)
    with 2 show ?thesis by (simp add: AList.distinct_update)
  qed
qed

lemma inner_distinct_fold:
  "\<forall>x \<in> set g. distinct (map fst (snd x)) \<Longrightarrow>
   \<forall>x \<in> set (fold group_step ps g). distinct (map fst (snd x))"
proof (induction ps arbitrary: g)
  case Nil
  then show ?case by simp
next
  case (Cons p ps)
  show ?case using Cons.IH[OF inner_distinct_group_step[OF Cons.prems]] by simp
qed


lemma group_predictions_lookup:
  assumes "(e, bd) \<in> set (group_predictions ps)"
  shows "map_of bd m = map_option ModelPrediction.score (last_prediction ps e m)"
proof -
  have "distinct (map fst (group_predictions ps))"
    unfolding group_predictions_def by (rule distinct_fold) simp
  with assms have "map_of (group_predictions ps) e = Some bd" by simp
  then have "map_of bd m = lookup2 (group_predictions ps) e m"
    by (simp add: lookup2_def)
  also have "\<dots> = map_option ModelPrediction.score (last_prediction ps e m)"
    unfolding group_predictions_def lookup2_fold
    by (simp add: lookup2_def split: option.splits)
  finally show ?thesis .
qed

lemma combine_eq: "combine c ps = Inr (map (score_of_group c) (group_predictions ps))"
  by (simp add: combine_def combine_groups_map)

lemma entity_score_of_group: "EnsembleScore.entity_id \<circ> score_of_group c = fst"
  by (auto simp: score_of_group_def)

lemma generate_predictions_count:
  assumes "w \<in> set (iter_models zoo)"
  shows "length (filter (\<lambda>fv. FeatureVector.entity_id fv = e) fvs)
         \<le> length (filter (\<lambda>p. ModelPrediction.entity_id p = e \<and> model_name p = ModelWrapper.name w)
               (generate_predictions zoo fvs))"
proof (induction fvs)
  case Nil
  then show ?case by (simp add: generate_predictions_def)
next
  case (Cons fv fvs)
  have block: "FeatureVector.entity_id fv = e \<Longrightarrow>
      1 \<le> length (filter (\<lambda>p. ModelPrediction.entity_id p = e \<and> model_name p = ModelWrapper.name w)
             (map (\<lambda>m. predict m fv) (iter_models zoo)))"
  proof -
    assume e: "FeatureVector.entity_id fv = e"
    have "predict w fv \<in> set (filter (\<lambda>p. ModelPrediction.entity_id p = e \<and> model_name p = ModelWrapper.name w)
             (map (\<lambda>m. predict m fv) (iter_models zoo)))"
      using assms e by (auto simp: predict_def Let_def)
    then show ?thesis
      by (metis One_nat_def Suc_leI length_pos_if_in_set)
  qed
  show ?case
    using Cons.IH block by (auto simp: generate_predictions_def)
qed

text \<open>
  Claim C9. When the predictions given to \<open>combine\<close> hold several scores for one
  (entity, model) pair, the entity's breakdown holds for that model the score of the last
  such prediction in the list, and the combined score is computed from that breakdown
  alone: earlier duplicates are dropped. The pipeline produces such duplicates: for every
  registered model, \<open>generate_predictions\<close> yields at least one prediction per feature
  vector of an entity, and vectors are per trade. Two trades of sizes 2 and 6 of one
  account, under a model that returns the rolling average, combine to the single score 4
  of the second vector.
\<close>

theorem C9_last_duplicate_wins:
  "(\<exists>rs. combine c ps = Inr rs
      \<and> EnsembleScore.entity_id ` set rs = ModelPrediction.entity_id ` set ps
      \<and> distinct (map EnsembleScore.entity_id rs)
      \<and> (\<forall>r \<in> set rs.
            (\<forall>m. map_of (breakdown r) m =
                  map_option ModelPrediction.score (last_prediction ps (EnsembleScore.entity_id r) m))
            \<and> distinct (map fst (breakdown r))
            \<and> EnsembleScore.score r = spec_weighted_score (weights c) (breakdown r)))
   \<and> (\<forall>w \<in> set (iter_models zoo).
        length (filter (\<lambda>fv. FeatureVector.entity_id fv = e) fvs)
        \<le> length (filter (\<lambda>p. ModelPrediction.entity_id p = e \<and> model_name p = ModelWrapper.name w)
              (generate_predictions zoo fvs)))
   \<and> map (\<lambda>p. (ModelPrediction.entity_id p, model_name p, ModelPrediction.score p))
        (generate_predictions [(''avg'', avg_model)]
           (snd (compute_features [] [trade ''t1'' ''a'' ''m'' 0 ''yes'' 2, trade ''t2'' ''a'' ''m'' 1 ''yes'' 6])))
      = [(''a'', ''avg'', 2), (''a'', ''avg'', 4)]
   \<and> combine (EnsembleCombiner_init None)
        (generate_predictions [(''avg'', avg_model)]
           (snd (compute_features [] [trade ''t1'' ''a'' ''m'' 0 ''yes'' 2, trade ''t2'' ''a'' ''m'' 1 ''yes'' 6])))
      = Inr [\<lparr>EnsembleScore.entity_id = ''a'', EnsembleScore.score = 4, breakdown = [(''avg'', 4)]\<rparr>]"
proof (intro conjI ballI)
  let ?g = "group_predictions ps"
  let ?rs = "map (score_of_group c) ?g"
  have keys: "fst ` set ?g = ModelPrediction.entity_id ` set ps"
    unfolding group_predictions_def by (simp add: keys_fold)
  have dist: "distinct (map fst ?g)"
    unfolding group_predictions_def by (rule distinct_fold) simp
  have inner: "\<forall>x \<in> set ?g. distinct (map fst (snd x))"
    unfolding group_predictions_def by (rule inner_distinct_fold) simp
  have ne: "\<forall>x \<in> set ?g. snd x \<noteq> []"
    unfolding group_predictions_def by (rule group_predictions_nonempty_aux) simp
  have 1: "EnsembleScore.entity_id ` set ?rs = ModelPrediction.entity_id ` set ps"
    using keys by (simp add: image_image score_of_group_def)
  have 2: "distinct (map EnsembleScore.entity_id ?rs)"
    using dist by (simp add: entity_score_of_group)
  have 3: "\<forall>r \<in> set ?rs.
            (\<forall>m. map_of (breakdown r) m =
                  map_option ModelPrediction.score (last_prediction ps (EnsembleScore.entity_id r) m))
            \<and> distinct (map fst (breakdown r))
            \<and> EnsembleScore.score r = spec_weighted_score (weights c) (breakdown r)"
  proof
    fix r assume "r \<in> set ?rs"
    then obtain x where x: "x \<in> set ?g" and r: "r = score_of_group c x" by auto
    obtain e' bd where xe: "x = (e', bd)" by (cases x)
    from x xe have "\<forall>m. map_of bd m = map_option ModelPrediction.score (last_prediction ps e' m)"
      using group_predictions_lookup by blast
    moreover from x inner have "distinct (map fst bd)" using xe by auto
    moreover from x ne have "bd \<noteq> []" using xe by auto
    ultimately show "(\<forall>m. map_of (breakdown r) m =
                  map_option ModelPrediction.score (last_prediction ps (EnsembleScore.entity_id r) m))
            \<and> distinct (map fst (breakdown r))
            \<and> EnsembleScore.score r = spec_weighted_score (weights c) (breakdown r)"
      by (simp add: r xe score_of_group_def)
  qed
  show "\<exists>rs. combine c ps = Inr rs
      \<and> EnsembleScore.entity_id ` set rs = ModelPrediction.entity_id ` set ps
      \<and> distinct (map EnsembleScore.entity_id rs)
      \<and> (\<forall>r \<in> set rs.
            (\<forall>m. map_of (breakdown r) m =
                  map_option ModelPrediction.score (last_prediction ps (EnsembleScore.entity_id r) m))
            \<and> distinct (map fst (breakdown r))
            \<and> EnsembleScore.score r = spec_weighted_score (weights c) (breakdown r))"
    using 1 2 3 combine_eq by blast
next
  fix w assume "w \<in> set (iter_models zoo)"
  then show "length (filter (\<lambda>fv. FeatureVector.entity_id fv = e) fvs)
        \<le> length (filter (\<lambda>p. ModelPrediction.entity_id p = e \<and> model_name p = ModelWrapper.name w)
              (generate_predictions zoo fvs))"
    by (rule generate_predictions_count)
next
  show "map (\<lambda>p. (ModelPrediction.entity_id p, model_name p, ModelPrediction.score p))
        (generate_predictions [(''avg'', avg_model)]
           (snd (compute_features [] [trade ''t1'' ''a'' ''m'' 0 ''yes'' 2, trade ''t2'' ''a'' ''m'' 1 ''yes'' 6])))
      = [(''a'', ''avg'', 2), (''a'', ''avg'', 4)]"
    by (simp add: generate_predictions_def iter_models_def predict_def avg_model_def Let_def
        rolling_average_def dict_get_def trade_def)
next
  show "combine (EnsembleCombiner_init None)
        (generate_predictions [(''avg'', avg_model)]
           (snd (compute_features [] [trade ''t1'' ''a'' ''m'' 0 ''yes'' 2, trade ''t2'' ''a'' ''m'' 1 ''yes'' 6])))
      = Inr [\<lparr>EnsembleScore.entity_id = ''a'', EnsembleScore.score = 4, breakdown = [(''avg'', 4)]\<rparr>]"
    by (simp add: generate_predictions_def iter_models_def predict_def avg_model_def Let_def
        rolling_average_def dict_get_def trade_def combine_def group_predictions_def group_step_def
        EnsembleCombiner_init_def weighted_average_def mean_def)
qed

theorem C9_witness:
  "combine (EnsembleCombiner_init None) [pred ''A'' ''x'' 0.2, pred ''B'' ''x'' 0.6, pred ''A'' ''x'' 0.8]
     = Inr [\<lparr>EnsembleScore.entity_id = ''x'', EnsembleScore.score = 0.7,
             breakdown = [(''A'', 0.8), (''B'', 0.6)]\<rparr>]
   \<and> last_prediction [pred ''A'' ''x'' 0.2, pred ''B'' ''x'' 0.6, pred ''A'' ''x'' 0.8] ''x'' ''A''
       = Some (pred ''A'' ''x'' 0.8)
   \<and> avg_model \<in> set (iter_models [(''avg'', avg_model)])
   \<and> length (filter (\<lambda>p. ModelPrediction.entity_id p = ''a'' \<and> model_name p = ''avg'')
        (generate_predictions [(''avg'', avg_model)]
           (snd (compute_features [] [trade ''t1'' ''a'' ''m'' 0 ''yes'' 2, trade ''t2'' ''a'' ''m'' 1 ''yes'' 6]))))
       = 2"
  using C9_last_duplicate_wins [of "EnsembleCombiner_init None"
      "[pred ''A'' ''x'' 0.2, pred ''B'' ''x'' 0.6, pred ''A'' ''x'' 0.8]"
      "[(''avg'', avg_model)]" "''a''"
      "snd (compute_features [] [trade ''t1'' ''a'' ''m'' 0 ''yes'' 2, trade ''t2'' ''a'' ''m'' 1 ''yes'' 6])"]
  by (simp add: generate_predictions_def iter_models_def predict_def avg_model_def Let_def
        rolling_average_def dict_get_def trade_def combine_def group_predictions_def group_step_def
        EnsembleCombiner_init_def weighted_average_def mean_def pred_def last_prediction_def)

section \<open>Facts about reordering predictions\<close>










lemma group_predictions_inner_distinct:
  "(e, bd) \<in> set (group_predictions ps) \<Longrightarrow> distinct (map fst bd)"
proof -
  assume a: "(e, bd) \<in> set (group_predictions ps)"
  have "\<forall>x \<in> set (fold group_step ps []). distinct (map fst (snd x))"
    by (rule inner_distinct_fold) simp
  with a show ?thesis unfolding group_predictions_def by fastforce
qed










section \<open>Facts about the result of combine\<close>

lemma remdups_later: "e \<in> set ys \<Longrightarrow> remdups (xs @ e # ys) = remdups (xs @ ys)"
  by (induction xs) auto

lemma first_occurrences_drop:
  "e \<in> set ks \<Longrightarrow> first_occurrences (ks @ e # es) = first_occurrences (ks @ es)"
  by (simp add: first_occurrences_def remdups_later)

lemma keys_list_group_step:
  "map fst (group_step p g) =
     (if ModelPrediction.entity_id p \<in> set (map fst g) then map fst g
      else map fst g @ [ModelPrediction.entity_id p])"
  by (simp add: group_step_def Let_def AList.update_keys)

lemma keys_order_fold:
  "distinct (map fst g) \<Longrightarrow>
   map fst (fold group_step ps g) = first_occurrences (map fst g @ map ModelPrediction.entity_id ps)"
proof (induction ps arbitrary: g)
  case Nil
  then have "distinct (rev (map fst g))" by simp
  then have "remdups (rev (map fst g)) = rev (map fst g)" by (rule distinct_remdups_id)
  then have "first_occurrences (map fst g) = map fst g"
    unfolding first_occurrences_def by (simp only: rev_rev_ident)
  then show ?case by simp
next
  case (Cons p ps)
  have d: "distinct (map fst (group_step p g))"
    using Cons.prems by (rule distinct_group_step)
  show ?case
  proof (cases "ModelPrediction.entity_id p \<in> set (map fst g)")
    case True
    then show ?thesis
      using Cons.IH[OF d] by (simp add: keys_list_group_step first_occurrences_drop)
  next
    case False
    then show ?thesis
      using Cons.IH[OF d] by (simp add: keys_list_group_step)
  qed
qed

lemma combine_entities:
  "map EnsembleScore.entity_id (map (score_of_group c) (group_predictions ps))
     = first_occurrences (map ModelPrediction.entity_id ps)"
proof -
  have "map fst (group_predictions ps) = first_occurrences (map ModelPrediction.entity_id ps)"
    unfolding group_predictions_def using keys_order_fold[of "[]" ps] by simp
  then show ?thesis by (simp add: entity_score_of_group)
qed

lemma combine_result_facts:
  assumes "r \<in> set (map (score_of_group c) (group_predictions ps))"
  shows "breakdown r \<noteq> [] \<and> distinct (map fst (breakdown r))
     \<and> (\<forall>m. map_of (breakdown r) m =
            map_option ModelPrediction.score (last_prediction ps (EnsembleScore.entity_id r) m))
     \<and> EnsembleScore.score r = spec_weighted_score (weights c) (breakdown r)"
proof -
  from assms obtain x where x: "x \<in> set (group_predictions ps)" and r: "r = score_of_group c x"
    by auto
  obtain e bd where xe: "x = (e, bd)" by (cases x)
  have in_g: "(e, bd) \<in> set (group_predictions ps)" using x xe by simp
  have "\<forall>g \<in> set (fold group_step ps []). snd g \<noteq> []"
    by (rule group_predictions_nonempty_aux) simp
  then have ne: "bd \<noteq> []" using in_g unfolding group_predictions_def by fastforce
  have di: "distinct (map fst bd)" using in_g by (rule group_predictions_inner_distinct)
  have lk: "\<forall>m. map_of bd m = map_option ModelPrediction.score (last_prediction ps e m)"
    using group_predictions_lookup[OF in_g] by simp
  show ?thesis using ne di lk by (simp add: r xe score_of_group_def)
qed


text \<open>
  Claim C2. \<open>combine\<close> never raises and returns exactly one result per entity of the
  predictions, in the order in which the entities first occur. The breakdown of an
  entity's result is non-empty and holds, for each model, the score predicted for that
  entity and model (the last one, should there be several). Its combined score is the
  specification's: the unweighted mean of the breakdown's scores without configured
  weights; otherwise the weighted sum over the sum of the weights of the entity's models,
  an unlisted model weighing 0; and the unweighted mean again when that sum is exactly 0.
  \<open>weighted_average\<close> computes that value on every non-empty mapping. Scores A:0.2,
  B:0.8 combine to 0.5 without weights and to 0.2 with weights A:1, B:0.
\<close>

theorem C2_combined_score:
  "(\<exists>rs. combine c ps = Inr rs
      \<and> map EnsembleScore.entity_id rs = first_occurrences (map ModelPrediction.entity_id ps)
      \<and> (\<forall>r \<in> set rs.
            breakdown r \<noteq> []
          \<and> distinct (map fst (breakdown r))
          \<and> (\<forall>m. map_of (breakdown r) m =
                 map_option ModelPrediction.score (last_prediction ps (EnsembleScore.entity_id r) m))
          \<and> EnsembleScore.score r = spec_weighted_score (weights c) (breakdown r)))
   \<and> (ms \<noteq> [] \<longrightarrow> weighted_average c ms = Inr (spec_weighted_score (weights c) ms))
   \<and> combine (EnsembleCombiner_init None) [pred ''A'' ''x'' 0.2, pred ''B'' ''x'' 0.8]
       = Inr [\<lparr>EnsembleScore.entity_id = ''x'', EnsembleScore.score = 0.5,
               breakdown = [(''A'', 0.2), (''B'', 0.8)]\<rparr>]
   \<and> combine (EnsembleCombiner_init (Some [(''A'', 1), (''B'', 0)]))
         [pred ''A'' ''x'' 0.2, pred ''B'' ''x'' 0.8]
       = Inr [\<lparr>EnsembleScore.entity_id = ''x'', EnsembleScore.score = 0.2,
               breakdown = [(''A'', 0.2), (''B'', 0.8)]\<rparr>]"
proof (intro conjI impI)
  let ?rs = "map (score_of_group c) (group_predictions ps)"
  have "combine c ps = Inr ?rs" by (rule combine_eq)
  moreover have "map EnsembleScore.entity_id ?rs = first_occurrences (map ModelPrediction.entity_id ps)"
    by (rule combine_entities)
  moreover have "\<forall>r \<in> set ?rs.
            breakdown r \<noteq> []
          \<and> distinct (map fst (breakdown r))
          \<and> (\<forall>m. map_of (breakdown r) m =
                 map_option ModelPrediction.score (last_prediction ps (EnsembleScore.entity_id r) m))
          \<and> EnsembleScore.score r = spec_weighted_score (weights c) (breakdown r)"
    using combine_result_facts by blast
  ultimately show "\<exists>rs. combine c ps = Inr rs
      \<and> map EnsembleScore.entity_id rs = first_occurrences (map ModelPrediction.entity_id ps)
      \<and> (\<forall>r \<in> set rs.
            breakdown r \<noteq> []
          \<and> distinct (map fst (breakdown r))
          \<and> (\<forall>m. map_of (breakdown r) m =
                 map_option ModelPrediction.score (last_prediction ps (EnsembleScore.entity_id r) m))
          \<and> EnsembleScore.score r = spec_weighted_score (weights c) (breakdown r))"
    by blast
next
  assume "ms \<noteq> []"
  then show "weighted_average c ms = Inr (spec_weighted_score (weights c) ms)"
    by (simp add: weighted_average_value)
next
  show "combine (EnsembleCombiner_init None) [pred ''A'' ''x'' 0.2, pred ''B'' ''x'' 0.8]
       = Inr [\<lparr>EnsembleScore.entity_id = ''x'', EnsembleScore.score = 0.5,
               breakdown = [(''A'', 0.2), (''B'', 0.8)]\<rparr>]"
    by (simp add: combine_def group_predictions_def group_step_def dict_get_def pred_def
        EnsembleCombiner_init_def weighted_average_def mean_def)
next
  show "combine (EnsembleCombiner_init (Some [(''A'', 1), (''B'', 0)]))
         [pred ''A'' ''x'' 0.2, pred ''B'' ''x'' 0.8]
       = Inr [\<lparr>EnsembleScore.entity_id = ''x'', EnsembleScore.score = 0.2,
               breakdown = [(''A'', 0.2), (''B'', 0.8)]\<rparr>]"
    by (simp add: combine_def group_predictions_def group_step_def dict_get_def pred_def
        EnsembleCombiner_init_def weighted_average_def mean_def)
qed

theorem C2_witness:
  "combine (EnsembleCombiner_init (Some [(''A'', 1), (''B'', 3), (''C'', 5)]))
      [pred ''A'' ''x'' 0.2, pred ''D'' ''y'' 0.4, pred ''B'' ''x'' 0.8, pred ''E'' ''y'' 0.6]
     = Inr [\<lparr>EnsembleScore.entity_id = ''x'', EnsembleScore.score = 0.65,
             breakdown = [(''A'', 0.2), (''B'', 0.8)]\<rparr>,
            \<lparr>EnsembleScore.entity_id = ''y'', EnsembleScore.score = 0.5,
             breakdown = [(''D'', 0.4), (''E'', 0.6)]\<rparr>]
   \<and> first_occurrences (map ModelPrediction.entity_id
        [pred ''A'' ''x'' 0.2, pred ''D'' ''y'' 0.4, pred ''B'' ''x'' 0.8, pred ''E'' ''y'' 0.6])
       = [''x'', ''y'']
   \<and> [(''A'', 0.2), (''B'', 0.8::real)] \<noteq> []
   \<and> weighted_average (EnsembleCombiner_init (Some [(''A'', 1), (''B'', 3), (''C'', 5)]))
        [(''A'', 0.2), (''B'', 0.8)] = Inr 0.65"
  using C2_combined_score [of "EnsembleCombiner_init (Some [(''A'', 1), (''B'', 3), (''C'', 5)])"
      "[pred ''A'' ''x'' 0.2, pred ''D'' ''y'' 0.4, pred ''B'' ''x'' 0.8, pred ''E'' ''y'' 0.6]"
      "[(''A'', 0.2), (''B'', 0.8)]"]
  by (simp add: combine_def group_predictions_def group_step_def dict_get_def pred_def
        EnsembleCombiner_init_def weighted_average_def mean_def spec_weighted_score_def
        first_occurrences_def)

end
